theory Spec2Isabelle
  imports Complex_Main
begin

section \<open>Data model of the network uptime monitor\<close>

text \<open>
  The development embeds \<open>Downtime-v2.py\<close>. A \<open>datetime\<close> is the number of microseconds
  since a fixed origin and a \<open>timedelta\<close> is a number of microseconds, both unbounded
  integers (the resolution of Python's types). Every call of \<open>datetime.now()\<close> whose value
  the program keeps is a parameter \<open>now\<close> of the function that makes the call. Python
  floats (response times, \<open>total_seconds()\<close>, percentages) are modelled by the real numbers
  they approximate. The timestamp column of the log, which is a further clock reading
  used for nothing else, and the calls of \<open>print\<close> and \<open>time.sleep\<close> are left out.
\<close>

type_synonym datetime = int
type_synonym timedelta = int

datatype error = TypeError | ZeroDivisionError | ValueError

text \<open>One entry of \<open>self.outages\<close>: a dictionary with the keys \<open>start\<close>, \<open>end\<close>,
  \<open>duration\<close> and, for the entry added by the report, \<open>ongoing\<close>. The report reads the
  last key with \<open>outage.get('ongoing')\<close>, so an absent key counts as false.\<close>

record outage =
  start :: datetime
  outage_end :: datetime
  duration :: timedelta
  ongoing :: bool

text \<open>One row written by \<open>_log_event\<close> (without its timestamp). The response-time cell is
  empty (\<open>None\<close>) where the caller passes the empty string.\<close>

record log_row =
  event_type :: string
  target :: string
  response_time :: "real option"
  test_type :: string
  message :: string

record monitor =
  start_time :: datetime
  is_online :: bool
  current_outage_start :: "datetime option"
  consecutive_failures :: int
  total_checks :: int
  successful_checks :: int
  failed_checks :: int
  outages :: "outage list"
  response_times :: "real list"
  event_log :: "log_row list"

definition PING_TARGETS :: "string list" where
  "PING_TARGETS = [''8.8.8.8'', ''1.1.1.1'', ''208.67.222.222'']"

definition DNS_TEST_DOMAINS :: "string list" where
  "DNS_TEST_DOMAINS = [''google.com'', ''cloudflare.com'', ''amazon.com'']"

definition FAILURE_THRESHOLD :: int where
  "FAILURE_THRESHOLD = 3"

section \<open>Formatting\<close>

text \<open>The decimal numeral of an integer, as an f-string renders it.\<close>

fun str_nat :: "nat \<Rightarrow> string" where
  "str_nat n =
     (if n < 10 then [''0123456789'' ! n]
      else str_nat (n div 10) @ [''0123456789'' ! (n mod 10)])"

declare str_nat.simps [simp del]

definition str_int :: "int \<Rightarrow> string" where
  "str_int i = (if i < 0 then CHR ''-'' # str_nat (nat (- i)) else str_nat (nat i))"

fun join :: "string \<Rightarrow> string list \<Rightarrow> string" where
  "join sep [] = []"
| "join sep [p] = p"
| "join sep (p # q # ps) = p @ sep @ join sep (q # ps)"

text \<open>\<open>int(td.total_seconds())\<close>: the seconds of a duration, truncated towards zero.
  (The float quotient of the source agrees with the exact one as long as the duration
  stays below some 270 years.)\<close>

definition int_total_seconds :: "timedelta \<Rightarrow> int" where
  "int_total_seconds td =
     (if 0 \<le> td then td div 1000000 else - ((- td) div 1000000))"

text \<open>\<open>NetworkMonitor._format_duration\<close>. Python's \<open>//\<close> and \<open>%\<close> round towards minus
  infinity, as \<open>div\<close> and \<open>mod\<close> on \<open>int\<close> do.\<close>

definition format_duration :: "timedelta \<Rightarrow> string" where
  "format_duration td =
     (let total_seconds = int_total_seconds td;
          hours = total_seconds div 3600;
          minutes = (total_seconds mod 3600) div 60;
          seconds = total_seconds mod 60;
          parts = [];
          parts = (if hours > 0 then parts @ [str_int hours @ ''h''] else parts);
          parts = (if minutes > 0 then parts @ [str_int minutes @ ''m''] else parts);
          parts = parts @ [str_int seconds @ ''s'']
      in join '' '' parts)"

section \<open>The outage tracker\<close>

definition log_event ::
  "monitor \<Rightarrow> string \<Rightarrow> string \<Rightarrow> string \<Rightarrow> real option \<Rightarrow> string \<Rightarrow> monitor" where
  "log_event m ev msg tgt rt tt =
     m\<lparr>event_log := event_log m @
          [\<lparr>event_type = ev, target = tgt, response_time = rt, test_type = tt,
            message = msg\<rparr>]\<rparr>"

text \<open>\<open>NetworkMonitor.__init__\<close>, started at the clock reading \<open>now\<close>.\<close>

definition NetworkMonitor_init :: "datetime \<Rightarrow> monitor" where
  "NetworkMonitor_init now =
     log_event
       \<lparr>start_time = now, is_online = True, current_outage_start = None,
        consecutive_failures = 0, total_checks = 0, successful_checks = 0,
        failed_checks = 0, outages = [], response_times = [], event_log = []\<rparr>
       ''MONITOR_START'' ''Network monitoring started'' '''' None ''''"

definition transition_to_offline :: "monitor \<Rightarrow> datetime \<Rightarrow> monitor" where
  "transition_to_offline m now =
     log_event (m\<lparr>is_online := False, current_outage_start := Some now\<rparr>)
       ''OUTAGE_START''
       (''Network outage detected after '' @ str_int FAILURE_THRESHOLD @
        '' consecutive failures'')
       '''' None ''''"

text \<open>\<open>_transition_to_online\<close> subtracts \<open>self.current_outage_start\<close> from a datetime;
  when that field is \<open>None\<close> the subtraction raises \<open>TypeError\<close>.\<close>

definition transition_to_online :: "monitor \<Rightarrow> datetime \<Rightarrow> error + monitor" where
  "transition_to_online m now =
     (let m1 = m\<lparr>is_online := True\<rparr>;
          outage_end = now
      in case current_outage_start m1 of
           None \<Rightarrow> Inl TypeError
         | Some st \<Rightarrow>
             (let duration = outage_end - st;
                  m2 = m1\<lparr>outages := outages m1 @
                         [\<lparr>start = st, outage_end = outage_end, duration = duration,
                           ongoing = False\<rparr>]\<rparr>;
                  m3 = log_event m2 ''OUTAGE_END''
                         (''Network restored. Outage duration: '' @ format_duration duration)
                         '''' None ''''
              in Inr (m3\<lparr>current_outage_start := None\<rparr>)))"

text \<open>\<open>x or ""\<close> for the optional texts and numbers the logger receives: a falsy value
  (\<open>None\<close>, the empty string, \<open>0.0\<close>) gives way to the default.\<close>

definition details_or :: "string \<Rightarrow> string \<Rightarrow> string" where
  "details_or details dflt = (if details = [] then dflt else details)"

definition response_time_or_empty :: "real option \<Rightarrow> real option" where
  "response_time_or_empty rt =
     (case rt of None \<Rightarrow> None | Some r \<Rightarrow> if r = 0 then None else Some r)"

text \<open>\<open>NetworkMonitor.record_check\<close>; \<open>now\<close> is the clock reading of the transition the
  call may make.\<close>

definition record_check ::
  "monitor \<Rightarrow> bool \<Rightarrow> string \<Rightarrow> real option \<Rightarrow> string \<Rightarrow> string \<Rightarrow> datetime
     \<Rightarrow> error + monitor" where
  "record_check m success tgt rt tt details now =
     (let m = m\<lparr>total_checks := total_checks m + 1\<rparr>
      in if success then
           (let m = m\<lparr>successful_checks := successful_checks m + 1\<rparr>;
                m = m\<lparr>consecutive_failures := 0\<rparr>;
                m = (case rt of None \<Rightarrow> m
                     | Some r \<Rightarrow> m\<lparr>response_times := response_times m @ [r]\<rparr>)
            in case (if \<not> is_online m then transition_to_online m now else Inr m) of
                 Inl e \<Rightarrow> Inl e
               | Inr m \<Rightarrow>
                   Inr (log_event m ''SUCCESS'' (details_or details ''Connection successful'')
                          tgt (response_time_or_empty rt) tt))
         else
           (let m = m\<lparr>failed_checks := failed_checks m + 1\<rparr>;
                m = m\<lparr>consecutive_failures := consecutive_failures m + 1\<rparr>;
                m = log_event m ''FAILURE'' (details_or details ''Connection failed'')
                      tgt None tt
            in if is_online m \<and> consecutive_failures m \<ge> FAILURE_THRESHOLD
               then Inr (transition_to_offline m now)
               else Inr m))"

text \<open>A run of the tracker: the calls of \<open>record_check\<close> in the order they are made, each
  with its arguments and its clock reading. An exception ends the run.\<close>

datatype call =
  RecordCheck (c_success: bool) (c_target: string) (c_response_time: "real option")
    (c_test_type: string) (c_details: string) (c_now: datetime)

fun run :: "monitor \<Rightarrow> call list \<Rightarrow> error + monitor" where
  "run m [] = Inr m"
| "run m (RecordCheck success tgt rt tt details now # cs) =
     (case record_check m success tgt rt tt details now of
        Inl e \<Rightarrow> Inl e
      | Inr m' \<Rightarrow> run m' cs)"

section \<open>The report\<close>

text \<open>An exception inside a computation ends it: \<open>and_then\<close> passes a result on and lets an
  error through.\<close>

definition and_then :: "error + 'a \<Rightarrow> ('a \<Rightarrow> error + 'b) \<Rightarrow> error + 'b" where
  "and_then r f = (case r of Inl e \<Rightarrow> Inl e | Inr x \<Rightarrow> f x)"

text \<open>\<open>timedelta.total_seconds()\<close>, and Python's true division \<open>/\<close>, which raises
  \<open>ZeroDivisionError\<close> on a zero divisor (in HOL \<open>x / 0 = 0\<close>).\<close>

definition total_seconds :: "timedelta \<Rightarrow> real" where
  "total_seconds td = real_of_int td / 1000000"

definition truediv :: "real \<Rightarrow> real \<Rightarrow> error + real" where
  "truediv a b = (if b = 0 then Inl ZeroDivisionError else Inr (a / b))"

text \<open>\<open>max\<close> and \<open>min\<close> of a list raise \<open>ValueError\<close> on the empty list.\<close>

definition py_max :: "real list \<Rightarrow> error + real" where
  "py_max xs = (case xs of [] \<Rightarrow> Inl ValueError | x # ys \<Rightarrow> Inr (fold max ys x))"

definition py_min :: "real list \<Rightarrow> error + real" where
  "py_min xs = (case xs of [] \<Rightarrow> Inl ValueError | x # ys \<Rightarrow> Inr (fold min ys x))"

text \<open>The numbers \<open>generate_report\<close> computes before it lays out the text. The two
  percentages of the connection summary are absent when no check was made (the report
  prints a plain \<open>0\<close> then), the outage statistics (average, longest, shortest, in
  seconds) when there are fewer than two outages.\<close>

record report =
  total_runtime :: timedelta
  total_outage_time :: timedelta
  total_uptime :: timedelta
  uptime_percentage :: real
  avg_response_time :: real
  successful_percentage :: "real option"
  failed_percentage :: "real option"
  outage_statistics :: "(real \<times> real \<times> real) option"

text \<open>\<open>NetworkMonitor.generate_report\<close>, called at the clock reading \<open>now\<close>: the updated
  monitor and the numbers of the report. The layout of the text, its number formats and
  the file it is written to are not modelled.\<close>

definition generate_report :: "monitor \<Rightarrow> datetime \<Rightarrow> error + (monitor \<times> report)" where
  "generate_report m now =
     (let end_time = now;
          total_runtime = end_time - start_time m;
          m = (if \<not> is_online m then
                 (case current_outage_start m of
                    None \<Rightarrow> m
                  | Some st \<Rightarrow>
                      (let ongoing_duration = end_time - st
                       in m\<lparr>outages := outages m @
                            [\<lparr>start = st, outage_end = end_time,
                              duration = ongoing_duration, ongoing = True\<rparr>]\<rparr>))
               else m);
          total_outage_time = sum_list (map duration (outages m));
          total_uptime = total_runtime - total_outage_time
      in
        and_then (if total_seconds total_runtime > 0
             then and_then (truediv (total_seconds total_uptime)
                         (total_seconds total_runtime))
                    (\<lambda>q. Inr (q * 100))
             else Inr 0)
          (\<lambda>uptime_percentage.
        and_then (if response_times m \<noteq> []
             then truediv (sum_list (response_times m)) (real (length (response_times m)))
             else Inr 0)
          (\<lambda>avg_response_time.
        and_then (if total_checks m > 0
             then and_then (truediv (real_of_int (successful_checks m))
                         (real_of_int (total_checks m)))
                    (\<lambda>q. Inr (Some (q * 100)))
             else Inr None)
          (\<lambda>successful_percentage.
        and_then (if total_checks m > 0
             then and_then (truediv (real_of_int (failed_checks m))
                         (real_of_int (total_checks m)))
                    (\<lambda>q. Inr (Some (q * 100)))
             else Inr None)
          (\<lambda>failed_percentage.
        and_then (if outages m \<noteq> [] \<and> length (outages m) > 1
             then (let durations = map (\<lambda>outage. total_seconds (duration outage)) (outages m)
                   in and_then (truediv (sum_list durations) (real (length durations)))
                        (\<lambda>avg_outage.
                      and_then (py_max durations) (\<lambda>max_outage.
                      and_then (py_min durations) (\<lambda>min_outage.
                        Inr (Some (avg_outage, max_outage, min_outage))))))
             else Inr None)
          (\<lambda>outage_statistics.
        Inr (m,
             \<lparr>total_runtime = total_runtime, total_outage_time = total_outage_time,
              total_uptime = total_uptime, uptime_percentage = uptime_percentage,
              avg_response_time = avg_response_time,
              successful_percentage = successful_percentage,
              failed_percentage = failed_percentage,
              outage_statistics = outage_statistics\<rparr>)))))))"

section \<open>One round of probes\<close>

text \<open>The outside world of one round: what \<open>ping_host\<close> and \<open>test_dns_resolution\<close>
  answer for a target, and the clock reading while the check of that target is
  recorded. A round asks about each target at most once.\<close>

record probes =
  ping_host :: "string \<Rightarrow> bool \<times> real option"
  test_dns_resolution :: "string \<Rightarrow> bool"
  clock :: "string \<Rightarrow> datetime"

definition py_any :: "bool list \<Rightarrow> bool" where
  "py_any results = list_ex (\<lambda>b. b) results"

text \<open>The two loops of \<open>perform_connectivity_test\<close>, each leaving at the first success.\<close>

fun ping_loop ::
  "probes \<Rightarrow> string list \<Rightarrow> monitor \<Rightarrow> bool list \<Rightarrow> error + (monitor \<times> bool list)" where
  "ping_loop env [] monitor results = Inr (monitor, results)"
| "ping_loop env (tgt # rest) monitor results =
     (case ping_host env tgt of
        (success, rt) \<Rightarrow>
          and_then (record_check monitor success tgt rt ''ICMP_PING'' '''' (clock env tgt))
            (\<lambda>monitor.
               if success then Inr (monitor, results @ [success])
               else ping_loop env rest monitor (results @ [success])))"

fun dns_loop ::
  "probes \<Rightarrow> string list \<Rightarrow> monitor \<Rightarrow> bool list \<Rightarrow> error + (monitor \<times> bool list)" where
  "dns_loop env [] monitor results = Inr (monitor, results)"
| "dns_loop env (domain # rest) monitor results =
     (let success = test_dns_resolution env domain
      in and_then (record_check monitor success domain None ''DNS_RESOLUTION'' ''''
                (clock env domain))
           (\<lambda>monitor.
              if success then Inr (monitor, results @ [success])
              else dns_loop env rest monitor (results @ [success])))"

definition perform_connectivity_test :: "probes \<Rightarrow> monitor \<Rightarrow> error + (monitor \<times> bool)" where
  "perform_connectivity_test env monitor =
     and_then (ping_loop env PING_TARGETS monitor [])
       (\<lambda>(monitor, results).
     and_then (if \<not> py_any results
          then dns_loop env (take 2 DNS_TEST_DOMAINS) monitor results
          else Inr (monitor, results))
       (\<lambda>(monitor, results). Inr (monitor, py_any results)))"

section \<open>Observations on runs\<close>

text \<open>The rows a step has added to the log, their event types, and the probes (test
  type and target) that rows record.\<close>

definition rows_since :: "monitor \<Rightarrow> monitor \<Rightarrow> log_row list" where
  "rows_since m m' = drop (length (event_log m)) (event_log m')"

definition events_since :: "monitor \<Rightarrow> monitor \<Rightarrow> string list" where
  "events_since m m' = map event_type (rows_since m m')"

definition probed :: "log_row list \<Rightarrow> (string \<times> string) list" where
  "probed rows =
     map (\<lambda>r. (test_type r, target r))
       (filter (\<lambda>r. event_type r = ''SUCCESS'' \<or> event_type r = ''FAILURE'') rows)"

definition went_online :: "monitor \<Rightarrow> monitor \<Rightarrow> bool" where
  "went_online m m' = (\<not> is_online m \<and> is_online m')"

text \<open>The targets a loop that leaves at the first success gets to: those before the
  first success, and the first success itself.\<close>

definition upto_first_success :: "(string \<Rightarrow> bool) \<Rightarrow> string list \<Rightarrow> string list" where
  "upto_first_success ok ts =
     takeWhile (\<lambda>t. \<not> ok t) ts @ take 1 (dropWhile (\<lambda>t. \<not> ok t) ts)"



section \<open>Invariants and sample runs\<close>

text \<open>The start of the current outage is recorded exactly while the monitor is offline.\<close>

definition outage_start_iff_offline :: "monitor \<Rightarrow> bool" where
  "outage_start_iff_offline m = ((current_outage_start m \<noteq> None) = (\<not> is_online m))"

definition counters_add_up :: "monitor \<Rightarrow> bool" where
  "counters_add_up m = (total_checks m = successful_checks m + failed_checks m)"

text \<open>The entry the report adds for an outage that is still open.\<close>

definition ongoing_record :: "monitor \<Rightarrow> datetime \<Rightarrow> outage list" where
  "ongoing_record m now =
     (if is_online m then []
      else case current_outage_start m of
             None \<Rightarrow> []
           | Some st \<Rightarrow>
               [\<lparr>start = st, outage_end = now, duration = now - st, ongoing = True\<rparr>])"

text \<open>A monitor started at time 0 whose three ping targets fail at 2 s, 4 s and 6 s, and
  the state this run leaves: offline since the third failure.\<close>

definition three_failures :: "call list" where
  "three_failures =
     [RecordCheck False ''8.8.8.8'' None ''ICMP_PING'' [] 2000000,
      RecordCheck False ''1.1.1.1'' None ''ICMP_PING'' [] 4000000,
      RecordCheck False ''208.67.222.222'' None ''ICMP_PING'' [] 6000000]"

definition offline_monitor :: monitor where
  "offline_monitor =
     \<lparr>start_time = 0, is_online = False, current_outage_start = Some 6000000,
      consecutive_failures = 3, total_checks = 3, successful_checks = 0,
      failed_checks = 3, outages = [], response_times = [],
      event_log =
        [\<lparr>event_type = ''MONITOR_START'', target = [], response_time = None,
          test_type = [], message = ''Network monitoring started''\<rparr>,
         \<lparr>event_type = ''FAILURE'', target = ''8.8.8.8'', response_time = None,
          test_type = ''ICMP_PING'', message = ''Connection failed''\<rparr>,
         \<lparr>event_type = ''FAILURE'', target = ''1.1.1.1'', response_time = None,
          test_type = ''ICMP_PING'', message = ''Connection failed''\<rparr>,
         \<lparr>event_type = ''FAILURE'', target = ''208.67.222.222'', response_time = None,
          test_type = ''ICMP_PING'', message = ''Connection failed''\<rparr>,
         \<lparr>event_type = ''OUTAGE_START'', target = [], response_time = None,
          test_type = [],
          message = ''Network outage detected after 3 consecutive failures''\<rparr>]\<rparr>"

text \<open>Every entry of the outage list is closed: not marked ongoing, its duration the
  difference of its end and its start.\<close>

definition closed_outages :: "monitor \<Rightarrow> bool" where
  "closed_outages m =
     list_all (\<lambda>outage. \<not> ongoing outage \<and>
        duration outage = outage_end outage - start outage) (outages m)"

text \<open>The recorded outages fit between the start of the monitor and the start of the
  open outage, or the latest clock reading \<open>t\<close> when no outage is open.\<close>

definition horizon :: "datetime \<Rightarrow> monitor \<Rightarrow> datetime" where
  "horizon t m = (case current_outage_start m of None \<Rightarrow> t | Some st \<Rightarrow> st)"

definition outage_time_bounded :: "datetime \<Rightarrow> monitor \<Rightarrow> bool" where
  "outage_time_bounded t m =
     (0 \<le> sum_list (map duration (outages m)) \<and>
      start_time m + sum_list (map duration (outages m)) \<le> horizon t m \<and>
      horizon t m \<le> t)"


text \<open>A round in which every ping fails, at 2 s, 4 s and 6 s, and the DNS lookup of
  \<open>google.com\<close> succeeds at 10 s.\<close>

definition pings_fail_dns_answers :: probes where
  "pings_fail_dns_answers =
     \<lparr>ping_host = (\<lambda>t. (False, None)),
      test_dns_resolution = (\<lambda>d. d = ''google.com''),
      clock = (\<lambda>t. if t = ''8.8.8.8'' then 2000000
                   else if t = ''1.1.1.1'' then 4000000
                   else if t = ''208.67.222.222'' then 6000000
                   else 10000000)\<rparr>"



section \<open>The tracker never raises\<close>

lemmas tracker_defs = record_check_def transition_to_online_def transition_to_offline_def
  log_event_def Let_def

lemma record_check_returns:
  assumes "outage_start_iff_offline m"
  shows "\<exists>m'. record_check m success tgt rt tt details now = Inr m' \<and>
    outage_start_iff_offline m'"
  using assms
  by (cases rt; cases "is_online m"; cases success)
     (auto simp: tracker_defs outage_start_iff_offline_def split: option.splits)

lemma record_check_counters:
  assumes "record_check m success tgt rt tt details now = Inr m'" and "counters_add_up m"
  shows "counters_add_up m'"
  using assms
  by (auto simp: tracker_defs counters_add_up_def split: option.splits if_splits)

lemma run_returns:
  "outage_start_iff_offline m \<Longrightarrow> counters_add_up m \<Longrightarrow>
   \<exists>m'. run m cs = Inr m' \<and> outage_start_iff_offline m' \<and> counters_add_up m'"
proof (induction cs arbitrary: m)
  case Nil
  then show ?case by simp
next
  case (Cons c cs)
  obtain success tgt rt tt details now where c: "c = RecordCheck success tgt rt tt details now"
    by (cases c)
  from record_check_returns [OF Cons.prems(1)] obtain m1 where
    m1: "record_check m success tgt rt tt details now = Inr m1" "outage_start_iff_offline m1"
    by blast
  have "counters_add_up m1" using record_check_counters [OF m1(1) Cons.prems(2)] .
  from Cons.IH [OF m1(2) this] show ?case using m1(1) c by simp
qed

lemma init_ok:
  "outage_start_iff_offline (NetworkMonitor_init t0)"
  "counters_add_up (NetworkMonitor_init t0)"
  by (simp_all add: NetworkMonitor_init_def log_event_def outage_start_iff_offline_def
        counters_add_up_def)

lemma str_int_3: "str_int 3 = ''3''"
proof -
  have "str_nat 3 = ''3''" by (subst str_nat.simps) (simp add: eval_nat_numeral)
  then show ?thesis by (simp add: str_int_def)
qed

lemma run_three_failures: "run (NetworkMonitor_init 0) three_failures = Inr offline_monitor"
  by (simp add: three_failures_def offline_monitor_def NetworkMonitor_init_def tracker_defs
        details_or_def str_int_3 FAILURE_THRESHOLD_def)

text \<open>
  Claim C5. Whatever the sequence of probe results recorded from the start of the monitor,
  no call of \<open>record_check\<close> raises, and after the calls the number of checks is the sum
  of the successful and the failed ones. Every prefix of a run is a run, so the equality
  holds after each call.
\<close>

theorem counters_add_up_after_every_run:
  "\<exists>m. run (NetworkMonitor_init t0) cs = Inr m \<and>
     total_checks m = successful_checks m + failed_checks m"
  using run_returns [OF init_ok, of t0 cs] by (auto simp: counters_add_up_def)

section \<open>What the report computes\<close>

lemma and_then_Inr: "and_then (Inr x) f = f x"
  by (simp add: and_then_def)

lemma uptime_guard:
  "(if total_seconds rt > 0
    then and_then (truediv u (total_seconds rt)) (\<lambda>q. Inr (q * 100))
    else Inr 0) = Inr (if rt > 0 then u / total_seconds rt * 100 else 0)"
  by (simp add: and_then_def truediv_def total_seconds_def)

lemma average_guard:
  "(if xs \<noteq> [] then truediv s (real (length xs)) else Inr 0) =
     Inr (if xs = [] then 0 else s / real (length xs))"
  by (simp add: truediv_def)

lemma percentage_guard:
  "(if n > 0
    then and_then (truediv a (real_of_int n)) (\<lambda>q. Inr (Some (q * 100)))
    else Inr None) = Inr (if n > 0 then Some (a / real_of_int n * 100) else None)"
  by (simp add: and_then_def truediv_def)

lemma statistics_guard:
  "\<exists>st. (if os \<noteq> [] \<and> length os > 1
    then (let durations = map f os
          in and_then (truediv (sum_list durations) (real (length durations)))
               (\<lambda>avg_outage.
             and_then (py_max durations) (\<lambda>max_outage.
             and_then (py_min durations) (\<lambda>min_outage.
               Inr (Some (avg_outage, max_outage, min_outage))))))
    else Inr None) = Inr (st :: (real \<times> real \<times> real) option)"
  by (cases os) (simp_all add: and_then_def truediv_def py_max_def py_min_def Let_def)

text \<open>Every division of the report is behind its guard, so the report always returns;
  these are its monitor and its numbers.\<close>

lemma generate_report_result:
  "\<exists>stats. generate_report m now =
     Inr (m\<lparr>outages := outages m @ ongoing_record m now\<rparr>,
          \<lparr>total_runtime = now - start_time m,
           total_outage_time = sum_list (map duration (outages m @ ongoing_record m now)),
           total_uptime = now - start_time m -
             sum_list (map duration (outages m @ ongoing_record m now)),
           uptime_percentage =
             (if now - start_time m > 0
              then total_seconds (now - start_time m -
                     sum_list (map duration (outages m @ ongoing_record m now))) /
                   total_seconds (now - start_time m) * 100
              else 0),
           avg_response_time =
             (if response_times m = [] then 0
              else sum_list (response_times m) / real (length (response_times m))),
           successful_percentage =
             (if total_checks m > 0
              then Some (real_of_int (successful_checks m) / real_of_int (total_checks m) * 100)
              else None),
           failed_percentage =
             (if total_checks m > 0
              then Some (real_of_int (failed_checks m) / real_of_int (total_checks m) * 100)
              else None),
           outage_statistics = stats\<rparr>)"
proof -
  define m1 where "m1 = m\<lparr>outages := outages m @ ongoing_record m now\<rparr>"
  have m1: "(if \<not> is_online m then
                 (case current_outage_start m of
                    None \<Rightarrow> m
                  | Some st \<Rightarrow>
                      (let ongoing_duration = now - st
                       in m\<lparr>outages := outages m @
                            [\<lparr>start = st, outage_end = now,
                              duration = ongoing_duration, ongoing = True\<rparr>]\<rparr>))
               else m) = m1"
    by (simp add: m1_def ongoing_record_def split: option.splits)
  obtain stats where stats: "(if outages m1 \<noteq> [] \<and> length (outages m1) > 1
    then (let durations = map (\<lambda>outage. total_seconds (duration outage)) (outages m1)
          in and_then (truediv (sum_list durations) (real (length durations)))
               (\<lambda>avg_outage.
             and_then (py_max durations) (\<lambda>max_outage.
             and_then (py_min durations) (\<lambda>min_outage.
               Inr (Some (avg_outage, max_outage, min_outage))))))
    else Inr None) = Inr stats"
    using statistics_guard by blast
  have "generate_report m now =
     Inr (m1,
          \<lparr>total_runtime = now - start_time m,
           total_outage_time = sum_list (map duration (outages m1)),
           total_uptime = now - start_time m - sum_list (map duration (outages m1)),
           uptime_percentage =
             (if now - start_time m > 0
              then total_seconds (now - start_time m - sum_list (map duration (outages m1))) /
                   total_seconds (now - start_time m) * 100
              else 0),
           avg_response_time =
             (if response_times m1 = [] then 0
              else sum_list (response_times m1) / real (length (response_times m1))),
           successful_percentage =
             (if total_checks m1 > 0
              then Some (real_of_int (successful_checks m1) / real_of_int (total_checks m1) * 100)
              else None),
           failed_percentage =
             (if total_checks m1 > 0
              then Some (real_of_int (failed_checks m1) / real_of_int (total_checks m1) * 100)
              else None),
           outage_statistics = stats\<rparr>)"
    unfolding generate_report_def Let_def m1 [unfolded Let_def] uptime_guard average_guard
      percentage_guard stats [unfolded Let_def] and_then_Inr ..
  then show ?thesis by (auto simp: m1_def)
qed

text \<open>
  Claim C9. Report generation never divides by zero: whatever the monitor and the clock
  reading, \<open>generate_report\<close> returns (its divisions, each behind a guard, never raise
  \<open>ZeroDivisionError\<close>); the uptime percentage is 0 when the total runtime is not
  positive, and the quotient of uptime and runtime times 100 otherwise; the average
  response time is 0 when no response time was recorded, and the mean of the recorded
  ones otherwise.
\<close>

theorem report_divisions_guarded:
  "\<exists>m' r. generate_report m now = Inr (m', r) \<and>
     uptime_percentage r =
       (if total_runtime r \<le> 0 then 0
        else total_seconds (total_uptime r) / total_seconds (total_runtime r) * 100) \<and>
     avg_response_time r =
       (if response_times m = [] then 0
        else sum_list (response_times m) / real (length (response_times m)))"
proof -
  from generate_report_result [of m now] obtain m' r where
    r: "generate_report m now = Inr (m', r)"
    and rt: "total_runtime r = now - start_time m"
    and up: "uptime_percentage r =
      (if now - start_time m > 0
       then total_seconds (total_uptime r) / total_seconds (now - start_time m) * 100 else 0)"
    and av: "avg_response_time r =
       (if response_times m = [] then 0
        else sum_list (response_times m) / real (length (response_times m)))"
    by force
  have "uptime_percentage r =
       (if total_runtime r \<le> 0 then 0
        else total_seconds (total_uptime r) / total_seconds (total_runtime r) * 100)"
    using up rt by simp
  with r av show ?thesis by blast
qed

text \<open>
  Claim C6. The start of the current outage is set if and only if the monitor is offline:
  this holds for the monitor as \<open>__init__\<close> leaves it; a call of \<open>record_check\<close> on a
  monitor where it holds returns, and it holds afterwards; and \<open>generate_report\<close>
  returns a monitor where it holds exactly if it held before (the report changes
  neither of the two fields).
\<close>

theorem outage_start_invariant:
  "outage_start_iff_offline (NetworkMonitor_init t0) \<and>
   (outage_start_iff_offline m \<longrightarrow>
      (\<exists>m'. record_check m success tgt rt tt details now = Inr m' \<and>
         outage_start_iff_offline m')) \<and>
   (\<exists>m' r. generate_report m now = Inr (m', r) \<and>
      outage_start_iff_offline m' = outage_start_iff_offline m)"
proof -
  have "\<exists>m' r. generate_report m now = Inr (m', r) \<and>
      outage_start_iff_offline m' = outage_start_iff_offline m"
    using generate_report_result [of m now] by (auto simp: outage_start_iff_offline_def)
  then show ?thesis using init_ok(1) record_check_returns by blast
qed

theorem outage_start_invariant_witness:
  "outage_start_iff_offline (NetworkMonitor_init 0) \<and>
   outage_start_iff_offline offline_monitor \<and>
   (\<exists>m'. record_check offline_monitor True ''google.com'' None ''DNS_RESOLUTION'' []
            10000000 = Inr m' \<and> outage_start_iff_offline m') \<and>
   (\<exists>m' r. generate_report offline_monitor 10000000 = Inr (m', r) \<and>
      outage_start_iff_offline m' = outage_start_iff_offline offline_monitor)"
proof -
  have h: "outage_start_iff_offline offline_monitor"
    by (simp add: outage_start_iff_offline_def offline_monitor_def)
  from outage_start_invariant [of 0 offline_monitor True "''google.com''" None
      "''DNS_RESOLUTION''" "[]" 10000000] h
  show ?thesis by blast
qed

section \<open>The steps of the tracker\<close>

text \<open>What one call does, case by case.\<close>

lemma record_check_success_online:
  assumes "is_online m"
  shows "record_check m True tgt rt tt details now =
    Inr (m\<lparr>total_checks := total_checks m + 1,
           successful_checks := successful_checks m + 1,
           consecutive_failures := 0,
           response_times := response_times m @ (case rt of None \<Rightarrow> [] | Some r \<Rightarrow> [r]),
           event_log := event_log m @
             [\<lparr>event_type = ''SUCCESS'', target = tgt,
               response_time = response_time_or_empty rt, test_type = tt,
               message = details_or details ''Connection successful''\<rparr>]\<rparr>)"
  using assms by (cases rt) (simp_all add: tracker_defs)

lemma record_check_success_offline:
  assumes "\<not> is_online m" and "current_outage_start m = Some st"
  shows "record_check m True tgt rt tt details now =
    Inr (m\<lparr>total_checks := total_checks m + 1,
           successful_checks := successful_checks m + 1,
           consecutive_failures := 0,
           response_times := response_times m @ (case rt of None \<Rightarrow> [] | Some r \<Rightarrow> [r]),
           is_online := True,
           outages := outages m @
             [\<lparr>start = st, outage_end = now, duration = now - st, ongoing = False\<rparr>],
           current_outage_start := None,
           event_log := event_log m @
             [\<lparr>event_type = ''OUTAGE_END'', target = [], response_time = None,
               test_type = [],
               message = ''Network restored. Outage duration: '' @
                 format_duration (now - st)\<rparr>,
              \<lparr>event_type = ''SUCCESS'', target = tgt,
               response_time = response_time_or_empty rt, test_type = tt,
               message = details_or details ''Connection successful''\<rparr>]\<rparr>)"
  using assms by (cases rt) (simp_all add: tracker_defs)

lemma record_check_failure_stays:
  assumes "\<not> is_online m \<or> consecutive_failures m + 1 < FAILURE_THRESHOLD"
  shows "record_check m False tgt rt tt details now =
    Inr (m\<lparr>total_checks := total_checks m + 1,
           failed_checks := failed_checks m + 1,
           consecutive_failures := consecutive_failures m + 1,
           event_log := event_log m @
             [\<lparr>event_type = ''FAILURE'', target = tgt, response_time = None,
               test_type = tt, message = details_or details ''Connection failed''\<rparr>]\<rparr>)"
  using assms by (auto simp: tracker_defs)

lemma record_check_failure_offline:
  assumes "is_online m" and "consecutive_failures m + 1 \<ge> FAILURE_THRESHOLD"
  shows "record_check m False tgt rt tt details now =
    Inr (m\<lparr>total_checks := total_checks m + 1,
           failed_checks := failed_checks m + 1,
           consecutive_failures := consecutive_failures m + 1,
           is_online := False,
           current_outage_start := Some now,
           event_log := event_log m @
             [\<lparr>event_type = ''FAILURE'', target = tgt, response_time = None,
               test_type = tt, message = details_or details ''Connection failed''\<rparr>,
              \<lparr>event_type = ''OUTAGE_START'', target = [], response_time = None,
               test_type = [],
               message = ''Network outage detected after 3 consecutive failures''\<rparr>]\<rparr>)"
  using assms by (simp add: tracker_defs str_int_3 FAILURE_THRESHOLD_def)

lemma record_check_cases:
  assumes "outage_start_iff_offline m"
  obtains
    (success_online) "success" "is_online m"
  | (success_offline) st where "success" "\<not> is_online m" "current_outage_start m = Some st"
  | (failure_stays) "\<not> success"
      "\<not> is_online m \<or> consecutive_failures m + 1 < FAILURE_THRESHOLD"
  | (failure_offline) "\<not> success" "is_online m"
      "consecutive_failures m + 1 \<ge> FAILURE_THRESHOLD"
  using assms
  by (cases success; cases "is_online m";
      cases "consecutive_failures m + 1 < FAILURE_THRESHOLD")
     (auto simp: outage_start_iff_offline_def)

lemma record_check_closed_outages:
  assumes "outage_start_iff_offline m" and "closed_outages m"
    and "record_check m success tgt rt tt details now = Inr m'"
  shows "closed_outages m'"
  using assms(1)
proof (cases rule: record_check_cases [of m success])
  case success_online
  with assms show ?thesis by (auto simp: record_check_success_online closed_outages_def)
next
  case (success_offline st)
  with assms show ?thesis
    by (auto simp: record_check_success_offline closed_outages_def)
next
  case failure_stays
  with assms show ?thesis by (auto simp: record_check_failure_stays closed_outages_def)
next
  case failure_offline
  with assms show ?thesis by (auto simp: record_check_failure_offline closed_outages_def)
qed


lemma run_closed_outages:
  "outage_start_iff_offline m \<Longrightarrow> closed_outages m \<Longrightarrow> run m cs = Inr m' \<Longrightarrow>
   closed_outages m'"
proof (induction cs arbitrary: m)
  case Nil
  then show ?case by simp
next
  case (Cons c cs)
  obtain success tgt rt tt details now where c: "c = RecordCheck success tgt rt tt details now"
    by (cases c)
  from record_check_returns [OF Cons.prems(1)] obtain m1 where
    m1: "record_check m success tgt rt tt details now = Inr m1" "outage_start_iff_offline m1"
    by blast
  have "closed_outages m1"
    using record_check_closed_outages [OF Cons.prems(1,2) m1(1)] .
  from Cons.IH [OF m1(2) this] Cons.prems(3) m1(1) c show ?case by simp
qed


lemma init_closed: "closed_outages (NetworkMonitor_init t0)"
  "outage_time_bounded t0 (NetworkMonitor_init t0)" "start_time (NetworkMonitor_init t0) = t0"
  by (simp_all add: NetworkMonitor_init_def log_event_def closed_outages_def
      outage_time_bounded_def horizon_def)

lemma reachable_invariants:
  assumes "run (NetworkMonitor_init t0) cs = Inr m"
  shows "outage_start_iff_offline m" "closed_outages m"
proof -
  from run_returns [OF init_ok, of t0 cs] assms show "outage_start_iff_offline m" by simp
  from run_closed_outages [OF init_ok(1) init_closed(1) assms] show "closed_outages m" .
qed

lemma filter_ongoing_closed: "closed_outages m \<Longrightarrow> filter ongoing (outages m) = []"
  by (simp add: closed_outages_def list_all_iff filter_empty_conv)

lemma offline_monitor_fields:
  "\<not> is_online offline_monitor" "outages offline_monitor = []"
  "current_outage_start offline_monitor = Some 6000000"
  by (simp_all add: offline_monitor_def)


section \<open>Transitions and the report on runs\<close>

text \<open>
  Claim C3. In every state a run of \<open>record_check\<close> calls reaches from the start of the
  monitor, a further call returns, and it takes the monitor from offline to online (it
  logs \<open>OUTAGE_END\<close>) if and only if the monitor was offline before the call and the
  result of the call is a success. That call appends one entry to the outage list, from
  the recorded start of the outage to the clock reading of the call, its duration the
  difference of the two; any other call leaves the list as it is; and every entry of the
  list has its duration equal to its end minus its start.
\<close>

theorem online_transition_iff_offline_success:
  assumes "run (NetworkMonitor_init t0) cs = Inr m"
  shows "\<exists>m'. record_check m success tgt rt tt details now = Inr m' \<and>
     went_online m m' = (\<not> is_online m \<and> success) \<and>
     (''OUTAGE_END'' \<in> set (events_since m m')) = (\<not> is_online m \<and> success) \<and>
     (if \<not> is_online m \<and> success
      then \<exists>st. current_outage_start m = Some st \<and>
             outages m' = outages m @
               [\<lparr>start = st, outage_end = now, duration = now - st, ongoing = False\<rparr>]
      else outages m' = outages m) \<and>
     list_all (\<lambda>outage. duration outage = outage_end outage - start outage) (outages m')"
proof -
  note inv = reachable_invariants [OF assms]
  from record_check_returns [OF inv(1)] obtain m' where
    m': "record_check m success tgt rt tt details now = Inr m'" by blast
  from record_check_closed_outages [OF inv m']
  have closed: "list_all (\<lambda>outage. duration outage = outage_end outage - start outage)
      (outages m')"
    by (simp add: closed_outages_def list_all_iff)
  from inv(1) have "went_online m m' = (\<not> is_online m \<and> success) \<and>
     (''OUTAGE_END'' \<in> set (events_since m m')) = (\<not> is_online m \<and> success) \<and>
     (if \<not> is_online m \<and> success
      then \<exists>st. current_outage_start m = Some st \<and>
             outages m' = outages m @
               [\<lparr>start = st, outage_end = now, duration = now - st, ongoing = False\<rparr>]
      else outages m' = outages m)"
  proof (cases rule: record_check_cases [of m success])
    case success_online
    with m' show ?thesis
      by (auto simp: record_check_success_online went_online_def events_since_def
          rows_since_def)
  next
    case (success_offline st)
    with m' show ?thesis
      by (auto simp: record_check_success_offline went_online_def events_since_def
          rows_since_def)
  next
    case failure_stays
    with m' show ?thesis
      by (auto simp: record_check_failure_stays went_online_def events_since_def
          rows_since_def)
  next
    case failure_offline
    with m' show ?thesis
      by (auto simp: record_check_failure_offline went_online_def events_since_def
          rows_since_def)
  qed
  with m' closed show ?thesis by blast
qed

theorem online_transition_iff_offline_success_witness:
  "run (NetworkMonitor_init 0) three_failures = Inr offline_monitor \<and>
   (\<exists>m'. record_check offline_monitor True ''google.com'' None ''DNS_RESOLUTION'' []
       10000000 = Inr m' \<and>
     went_online offline_monitor m' \<and>
     ''OUTAGE_END'' \<in> set (events_since offline_monitor m') \<and>
     outages m' =
       [\<lparr>start = 6000000, outage_end = 10000000, duration = 4000000, ongoing = False\<rparr>])"
  using online_transition_iff_offline_success [OF run_three_failures, of True "''google.com''" None "''DNS_RESOLUTION''" "[]"
      10000000] run_three_failures
  by (auto simp: offline_monitor_fields)

text \<open>
  Claim C1, as amended. For every offline state reached by a run of \<open>record_check\<close>
  calls, \<open>generate_report\<close> at the clock reading \<open>now\<close> appends one entry to the
  outage list of the monitor itself: it starts at the recorded start of the outage, ends
  at \<open>now\<close>, lasts \<open>now\<close> minus that start and is marked ongoing. It is the only
  ongoing entry of the list, and the total outage time of the report includes its
  duration. Neither \<open>is_online\<close> nor \<open>current_outage_start\<close> changes, and the list is
  not a copy: a second report at \<open>now2\<close> on the monitor the first one returns appends a
  second ongoing entry and adds the durations of both to its total.
\<close>

theorem report_appends_ongoing_record:
  assumes "run (NetworkMonitor_init t0) cs = Inr m" and "\<not> is_online m"
  shows "\<exists>st r r2. current_outage_start m = Some st \<and>
     generate_report m now =
       Inr (m\<lparr>outages := outages m @
              [\<lparr>start = st, outage_end = now, duration = now - st, ongoing = True\<rparr>]\<rparr>, r) \<and>
     filter ongoing (outages m @
         [\<lparr>start = st, outage_end = now, duration = now - st, ongoing = True\<rparr>]) =
       [\<lparr>start = st, outage_end = now, duration = now - st, ongoing = True\<rparr>] \<and>
     total_outage_time r = sum_list (map duration (outages m)) + (now - st) \<and>
     generate_report
       (m\<lparr>outages := outages m @
           [\<lparr>start = st, outage_end = now, duration = now - st, ongoing = True\<rparr>]\<rparr>) now2 =
       Inr (m\<lparr>outages := outages m @
              [\<lparr>start = st, outage_end = now, duration = now - st, ongoing = True\<rparr>,
               \<lparr>start = st, outage_end = now2, duration = now2 - st, ongoing = True\<rparr>]\<rparr>,
            r2) \<and>
     total_outage_time r2 =
       sum_list (map duration (outages m)) + (now - st) + (now2 - st)"
proof -
  note inv = reachable_invariants [OF assms(1)]
  from inv(1) assms(2) obtain st where st: "current_outage_start m = Some st"
    by (auto simp: outage_start_iff_offline_def)
  let ?o1 = "\<lparr>start = st, outage_end = now, duration = now - st, ongoing = True\<rparr>"
  let ?o2 = "\<lparr>start = st, outage_end = now2, duration = now2 - st, ongoing = True\<rparr>"
  let ?m1 = "m\<lparr>outages := outages m @ [?o1]\<rparr>"
  have a: "ongoing_record m now = [?o1]"
    using assms(2) st by (simp add: ongoing_record_def)
  have b: "ongoing_record ?m1 now2 = [?o2]"
    using assms(2) st by (simp add: ongoing_record_def)
  from generate_report_result [of m now] a obtain r where
    r: "generate_report m now = Inr (?m1, r)"
      "total_outage_time r = sum_list (map duration (outages m)) + (now - st)"
    by auto
  from generate_report_result [of ?m1 now2] b obtain r2 where
    r2: "generate_report ?m1 now2 = Inr (m\<lparr>outages := outages m @ [?o1, ?o2]\<rparr>, r2)"
      "total_outage_time r2 = sum_list (map duration (outages m)) + (now - st) + (now2 - st)"
    by auto
  have f: "filter ongoing (outages m @ [?o1]) = [?o1]"
    using filter_ongoing_closed [OF inv(2)] by simp
  from st r r2 f show ?thesis by blast
qed

theorem report_appends_ongoing_record_witness:
  "run (NetworkMonitor_init 0) three_failures = Inr offline_monitor \<and>
   \<not> is_online offline_monitor \<and>
   (\<exists>r r2.
     generate_report offline_monitor 10000000 =
       Inr (offline_monitor\<lparr>outages :=
              [\<lparr>start = 6000000, outage_end = 10000000, duration = 4000000,
                ongoing = True\<rparr>]\<rparr>, r) \<and>
     total_outage_time r = 4000000 \<and>
     generate_report
       (offline_monitor\<lparr>outages :=
           [\<lparr>start = 6000000, outage_end = 10000000, duration = 4000000,
             ongoing = True\<rparr>]\<rparr>) 11000000 =
       Inr (offline_monitor\<lparr>outages :=
              [\<lparr>start = 6000000, outage_end = 10000000, duration = 4000000,
                ongoing = True\<rparr>,
               \<lparr>start = 6000000, outage_end = 11000000, duration = 5000000,
                ongoing = True\<rparr>]\<rparr>, r2) \<and>
     total_outage_time r2 = 9000000)"
  using report_appends_ongoing_record [OF run_three_failures offline_monitor_fields(1), of 10000000 11000000]
    run_three_failures
  by (simp add: offline_monitor_fields)

text \<open>
  The claim C1 as first stated fails: after three failed checks at 2 s, 4 s and 6 s the
  monitor is offline since 6 s; a report at 10 s leaves an ongoing entry of 4 s in the
  outage list, and a report at 11 s, before any success, leaves a second one of 5 s beside
  it and counts 9 s of outage for an outage that is 5 s old.
\<close>

theorem repeated_report_counts_outage_again:
  "run (NetworkMonitor_init 0) three_failures = Inr offline_monitor \<and>
   map_sum id fst (generate_report offline_monitor 10000000) =
     Inr (offline_monitor\<lparr>outages :=
       [\<lparr>start = 6000000, outage_end = 10000000, duration = 4000000, ongoing = True\<rparr>]\<rparr>) \<and>
   map_sum id fst (generate_report (offline_monitor\<lparr>outages :=
       [\<lparr>start = 6000000, outage_end = 10000000, duration = 4000000, ongoing = True\<rparr>]\<rparr>)
       11000000) =
     Inr (offline_monitor\<lparr>outages :=
       [\<lparr>start = 6000000, outage_end = 10000000, duration = 4000000, ongoing = True\<rparr>,
        \<lparr>start = 6000000, outage_end = 11000000, duration = 5000000, ongoing = True\<rparr>]\<rparr>) \<and>
   map_sum id (total_outage_time \<circ> snd) (generate_report (offline_monitor\<lparr>outages :=
       [\<lparr>start = 6000000, outage_end = 10000000, duration = 4000000, ongoing = True\<rparr>]\<rparr>)
       11000000) = Inr 9000000"
proof -
  have a: "ongoing_record offline_monitor 10000000 =
     [\<lparr>start = 6000000, outage_end = 10000000, duration = 4000000, ongoing = True\<rparr>]"
    by (simp add: ongoing_record_def offline_monitor_def)
  have b: "ongoing_record (offline_monitor\<lparr>outages :=
       [\<lparr>start = 6000000, outage_end = 10000000, duration = 4000000, ongoing = True\<rparr>]\<rparr>)
       11000000 =
     [\<lparr>start = 6000000, outage_end = 11000000, duration = 5000000, ongoing = True\<rparr>]"
    by (simp add: ongoing_record_def offline_monitor_def)
  have c: "outages offline_monitor = []" by (simp add: offline_monitor_def)
  show ?thesis
    using generate_report_result [of offline_monitor 10000000]
      generate_report_result [of "offline_monitor\<lparr>outages :=
       [\<lparr>start = 6000000, outage_end = 10000000, duration = 4000000, ongoing = True\<rparr>]\<rparr>"
       11000000] run_three_failures
    by (auto simp: a b c)
qed




section \<open>The threshold\<close>

lemma init_fields:
  "is_online (NetworkMonitor_init t0)" "consecutive_failures (NetworkMonitor_init t0) = 0"
  "outages (NetworkMonitor_init t0) = []"
  by (simp_all add: NetworkMonitor_init_def log_event_def)

lemma sample_probes:
  "ping_host pings_fail_dns_answers t = (False, None)"
  "test_dns_resolution pings_fail_dns_answers ''google.com''"
  "clock pings_fail_dns_answers ''208.67.222.222'' = 6000000"
  "clock pings_fail_dns_answers ''google.com'' = 10000000"
  by (simp_all add: pings_fail_dns_answers_def)

lemma run_append:
  "run m (xs @ ys) = (case run m xs of Inl e \<Rightarrow> Inl e | Inr m' \<Rightarrow> run m' ys)"
proof (induction xs arbitrary: m)
  case Nil
  then show ?case by simp
next
  case (Cons c xs)
  then show ?case by (cases c) (simp split: sum.splits)
qed

lemma online_after_success:
  assumes "record_check m True tgt rt tt details now = Inr m'"
  shows "is_online m' \<and> consecutive_failures m' = 0"
  using assms
  by (cases rt; cases "is_online m"; cases "current_outage_start m")
     (auto simp: tracker_defs)

lemma idle_after_success:
  assumes "run (NetworkMonitor_init t0) cs = Inr m" and "cs = [] \<or> c_success (last cs)"
  shows "is_online m \<and> consecutive_failures m = 0"
proof (cases cs rule: rev_cases)
  case Nil
  with assms(1) show ?thesis by (auto simp: NetworkMonitor_init_def log_event_def)
next
  case (snoc xs c)
  with assms(2) have s: "c_success c" by simp
  obtain success tgt rt tt details now where c: "c = RecordCheck success tgt rt tt details now"
    by (cases c)
  from assms(1) snoc obtain m0 where "run m0 [c] = Inr m"
    by (auto simp: run_append split: sum.splits)
  with c s have "record_check m0 True tgt rt tt details now = Inr m"
    by (simp split: sum.splits)
  then show ?thesis by (rule online_after_success)
qed

lemma failures_while_offline:
  "\<not> is_online m \<Longrightarrow> list_all (\<lambda>c. \<not> c_success c) fs \<Longrightarrow>
   \<exists>m'. run m fs = Inr m' \<and> \<not> is_online m' \<and> outages m' = outages m \<and>
     current_outage_start m' = current_outage_start m \<and>
     (\<exists>rows. event_log m' = event_log m @ rows \<and>
        map event_type rows = replicate (length fs) ''FAILURE'')"
proof (induction fs arbitrary: m)
  case Nil
  then show ?case by simp
next
  case (Cons c fs)
  obtain success tgt rt tt details now where c: "c = RecordCheck success tgt rt tt details now"
    by (cases c)
  with Cons.prems(2) have f: "\<not> success" "list_all (\<lambda>c. \<not> c_success c) fs" by simp_all
  define m1 where "m1 = m\<lparr>total_checks := total_checks m + 1,
           failed_checks := failed_checks m + 1,
           consecutive_failures := consecutive_failures m + 1,
           event_log := event_log m @
             [\<lparr>event_type = ''FAILURE'', target = tgt, response_time = None,
               test_type = tt, message = details_or details ''Connection failed''\<rparr>]\<rparr>"
  have step: "record_check m False tgt rt tt details now = Inr m1"
    using Cons.prems(1) by (simp add: record_check_failure_stays m1_def)
  have off: "\<not> is_online m1" using Cons.prems(1) by (simp add: m1_def)
  from Cons.IH [OF off f(2)] obtain m' rows where
    m': "run m1 fs = Inr m'" "\<not> is_online m'" "outages m' = outages m1"
      "current_outage_start m' = current_outage_start m1"
      "event_log m' = event_log m1 @ rows" "map event_type rows = replicate (length fs) ''FAILURE''"
    by blast
  have "run m (c # fs) = Inr m'" using c f(1) step m'(1) by simp
  moreover have "event_log m' = event_log m @
      (\<lparr>event_type = ''FAILURE'', target = tgt, response_time = None,
        test_type = tt, message = details_or details ''Connection failed''\<rparr> # rows)"
    using m'(5) by (simp add: m1_def)
  moreover have "map event_type
      (\<lparr>event_type = ''FAILURE'', target = tgt, response_time = None,
        test_type = tt, message = details_or details ''Connection failed''\<rparr> # rows) =
      replicate (length (c # fs)) ''FAILURE''"
    using m'(6) by simp
  ultimately show ?case using m'(2,3,4) by (auto simp: m1_def)
qed

lemma events_since_append:
  "event_log m' = event_log m @ rows \<Longrightarrow> events_since m m' = map event_type rows"
  by (simp add: events_since_def rows_since_def)

text \<open>
  Claim C2. With the threshold of 3, take any run from the start of the monitor that is
  empty or ends with a success (the monitor is then online, with no failure counted).
  Two failed checks and then a successful one add no entry to the outage list and log
  no transition: the rows they add are \<open>FAILURE\<close>, \<open>FAILURE\<close>, \<open>SUCCESS\<close>. Three failed
  checks log one \<open>OUTAGE_START\<close>, at the third, whose clock reading becomes the start of
  the outage; however many failed checks follow, they log \<open>FAILURE\<close> and nothing else,
  so there is no \<open>OUTAGE_END\<close> and no further \<open>OUTAGE_START\<close> before a success, and the
  outage list stays as it was.
\<close>

theorem threshold_of_three_failures:
  assumes "run (NetworkMonitor_init t0) cs = Inr m" and "cs = [] \<or> c_success (last cs)"
  shows "(\<exists>m'. run m [RecordCheck False tgt1 rt1 tt1 d1 now1,
                      RecordCheck False tgt2 rt2 tt2 d2 now2,
                      RecordCheck True tgt3 rt3 tt3 d3 now3] = Inr m' \<and>
            is_online m' \<and> outages m' = outages m \<and>
            events_since m m' = [''FAILURE'', ''FAILURE'', ''SUCCESS'']) \<and>
         (list_all (\<lambda>c. \<not> c_success c) fs \<longrightarrow>
           (\<exists>m'. run m (RecordCheck False tgt1 rt1 tt1 d1 now1 #
                        RecordCheck False tgt2 rt2 tt2 d2 now2 #
                        RecordCheck False tgt4 rt4 tt4 d4 now4 # fs) = Inr m' \<and>
              \<not> is_online m' \<and> current_outage_start m' = Some now4 \<and>
              outages m' = outages m \<and>
              events_since m m' =
                [''FAILURE'', ''FAILURE'', ''FAILURE'', ''OUTAGE_START''] @
                replicate (length fs) ''FAILURE''))"
proof -
  from idle_after_success [OF assms] have idle: "is_online m" "consecutive_failures m = 0"
    by simp_all
  define m1 where "m1 = m\<lparr>total_checks := total_checks m + 1,
           failed_checks := failed_checks m + 1,
           consecutive_failures := consecutive_failures m + 1,
           event_log := event_log m @
             [\<lparr>event_type = ''FAILURE'', target = tgt1, response_time = None,
               test_type = tt1, message = details_or d1 ''Connection failed''\<rparr>]\<rparr>"
  define m2 where "m2 = m1\<lparr>total_checks := total_checks m1 + 1,
           failed_checks := failed_checks m1 + 1,
           consecutive_failures := consecutive_failures m1 + 1,
           event_log := event_log m1 @
             [\<lparr>event_type = ''FAILURE'', target = tgt2, response_time = None,
               test_type = tt2, message = details_or d2 ''Connection failed''\<rparr>]\<rparr>"
  have s1: "record_check m False tgt1 rt1 tt1 d1 now1 = Inr m1"
    using idle by (simp add: record_check_failure_stays m1_def FAILURE_THRESHOLD_def)
  have i1: "is_online m1" "consecutive_failures m1 = 1" using idle by (simp_all add: m1_def)
  have s2: "record_check m1 False tgt2 rt2 tt2 d2 now2 = Inr m2"
    using i1 by (simp add: record_check_failure_stays m2_def FAILURE_THRESHOLD_def)
  have i2: "is_online m2" "consecutive_failures m2 = 2" using i1 by (simp_all add: m2_def)
  have two: "outages m2 = outages m" "map event_type (drop (length (event_log m)) (event_log m2)) =
      [''FAILURE'', ''FAILURE'']"
    by (simp_all add: m2_def m1_def)
  have first: "\<exists>m'. run m [RecordCheck False tgt1 rt1 tt1 d1 now1,
                      RecordCheck False tgt2 rt2 tt2 d2 now2,
                      RecordCheck True tgt3 rt3 tt3 d3 now3] = Inr m' \<and>
            is_online m' \<and> outages m' = outages m \<and>
            events_since m m' = [''FAILURE'', ''FAILURE'', ''SUCCESS'']"
    using s1 s2 i2
    by (simp add: record_check_success_online events_since_def rows_since_def m2_def m1_def)
  have second: "\<exists>m'. run m (RecordCheck False tgt1 rt1 tt1 d1 now1 #
                        RecordCheck False tgt2 rt2 tt2 d2 now2 #
                        RecordCheck False tgt4 rt4 tt4 d4 now4 # fs) = Inr m' \<and>
              \<not> is_online m' \<and> current_outage_start m' = Some now4 \<and>
              outages m' = outages m \<and>
              events_since m m' =
                [''FAILURE'', ''FAILURE'', ''FAILURE'', ''OUTAGE_START''] @
                replicate (length fs) ''FAILURE''"
    if fs: "list_all (\<lambda>c. \<not> c_success c) fs"
  proof -
    define m3 where "m3 = m2\<lparr>total_checks := total_checks m2 + 1,
           failed_checks := failed_checks m2 + 1,
           consecutive_failures := consecutive_failures m2 + 1,
           is_online := False,
           current_outage_start := Some now4,
           event_log := event_log m2 @
             [\<lparr>event_type = ''FAILURE'', target = tgt4, response_time = None,
               test_type = tt4, message = details_or d4 ''Connection failed''\<rparr>,
              \<lparr>event_type = ''OUTAGE_START'', target = [], response_time = None,
               test_type = [],
               message = ''Network outage detected after 3 consecutive failures''\<rparr>]\<rparr>"
    have s3: "record_check m2 False tgt4 rt4 tt4 d4 now4 = Inr m3"
      using i2 by (simp add: record_check_failure_offline m3_def FAILURE_THRESHOLD_def)
    have off: "\<not> is_online m3" by (simp add: m3_def)
    from failures_while_offline [OF off fs] obtain m' rows where
      m': "run m3 fs = Inr m'" "\<not> is_online m'" "outages m' = outages m3"
        "current_outage_start m' = current_outage_start m3"
        "event_log m' = event_log m3 @ rows" "map event_type rows = replicate (length fs) ''FAILURE''"
      by blast
    have r: "run m (RecordCheck False tgt1 rt1 tt1 d1 now1 #
                        RecordCheck False tgt2 rt2 tt2 d2 now2 #
                        RecordCheck False tgt4 rt4 tt4 d4 now4 # fs) = Inr m'"
      using s1 s2 s3 m'(1) by simp
    have l: "event_log m' = event_log m @
       (\<lparr>event_type = ''FAILURE'', target = tgt1, response_time = None,
               test_type = tt1, message = details_or d1 ''Connection failed''\<rparr> #
        \<lparr>event_type = ''FAILURE'', target = tgt2, response_time = None,
               test_type = tt2, message = details_or d2 ''Connection failed''\<rparr> #
        \<lparr>event_type = ''FAILURE'', target = tgt4, response_time = None,
               test_type = tt4, message = details_or d4 ''Connection failed''\<rparr> #
        \<lparr>event_type = ''OUTAGE_START'', target = [], response_time = None,
               test_type = [],
               message = ''Network outage detected after 3 consecutive failures''\<rparr> #
        rows)"
      using m'(5) by (simp add: m3_def m2_def m1_def)
    have e: "events_since m m' =
        [''FAILURE'', ''FAILURE'', ''FAILURE'', ''OUTAGE_START''] @
        replicate (length fs) ''FAILURE''"
      using events_since_append [OF l] m'(6) by simp
    from r m'(2,3,4) e show ?thesis by (auto simp: m3_def m2_def m1_def)
  qed
  from first second show ?thesis by blast
qed

theorem threshold_of_three_failures_witness:
  "run (NetworkMonitor_init 0) [] = Inr (NetworkMonitor_init 0) \<and>
   (\<exists>m'. run (NetworkMonitor_init 0)
       [RecordCheck False ''8.8.8.8'' None ''ICMP_PING'' [] 2000000,
        RecordCheck False ''1.1.1.1'' None ''ICMP_PING'' [] 4000000,
        RecordCheck True ''208.67.222.222'' (Some 12.5) ''ICMP_PING'' [] 6000000] = Inr m' \<and>
      is_online m' \<and> outages m' = [] \<and>
      events_since (NetworkMonitor_init 0) m' = [''FAILURE'', ''FAILURE'', ''SUCCESS'']) \<and>
   list_all (\<lambda>c. \<not> c_success c)
     [RecordCheck False ''google.com'' None ''DNS_RESOLUTION'' [] 8000000] \<and>
   (\<exists>m'. run (NetworkMonitor_init 0)
       [RecordCheck False ''8.8.8.8'' None ''ICMP_PING'' [] 2000000,
        RecordCheck False ''1.1.1.1'' None ''ICMP_PING'' [] 4000000,
        RecordCheck False ''208.67.222.222'' None ''ICMP_PING'' [] 6000000,
        RecordCheck False ''google.com'' None ''DNS_RESOLUTION'' [] 8000000] = Inr m' \<and>
      \<not> is_online m' \<and> current_outage_start m' = Some 6000000 \<and> outages m' = [] \<and>
      events_since (NetworkMonitor_init 0) m' =
        [''FAILURE'', ''FAILURE'', ''FAILURE'', ''OUTAGE_START'', ''FAILURE''])"
proof -
  have r: "run (NetworkMonitor_init 0) [] = Inr (NetworkMonitor_init 0)" by simp
  have e: "([]::call list) = [] \<or> c_success (last [])" by simp
  have f: "list_all (\<lambda>c. \<not> c_success c)
     [RecordCheck False ''google.com'' None ''DNS_RESOLUTION'' [] 8000000]" by simp
  from threshold_of_three_failures [OF r e, of "''8.8.8.8''" None "''ICMP_PING''" "[]" 2000000
      "''1.1.1.1''" None "''ICMP_PING''" "[]" 4000000
      "''208.67.222.222''" "Some 12.5" "''ICMP_PING''" "[]" 6000000
      "[RecordCheck False ''google.com'' None ''DNS_RESOLUTION'' [] 8000000]"
      "''208.67.222.222''" None "''ICMP_PING''" "[]" 6000000]
  show ?thesis using f by (simp add: init_fields)
qed

section \<open>The probes of a round\<close>

lemma upto_first_success_Cons:
  "upto_first_success ok (t # ts) = (if ok t then [t] else t # upto_first_success ok ts)"
  by (simp add: upto_first_success_def)

lemma upto_first_success_Nil: "upto_first_success ok [] = []"
  by (simp add: upto_first_success_def)

lemma py_any_append: "py_any (rs @ [b]) = (py_any rs \<or> b)"
  by (auto simp: py_any_def)

lemma py_any_upto:
  "py_any (rs @ map ok (upto_first_success ok ts)) = (py_any rs \<or> list_ex ok ts)"
  by (induction ts) (auto simp: py_any_def upto_first_success_Cons upto_first_success_Nil)

text \<open>One recorded check adds the row of that check to the log, and at most rows of
  transitions beside it.\<close>

lemma record_check_probed:
  assumes "outage_start_iff_offline m"
  shows "\<exists>m' rows. record_check m success tgt rt tt details now = Inr m' \<and>
     outage_start_iff_offline m' \<and> event_log m' = event_log m @ rows \<and> probed rows = [(tt, tgt)]"
  using assms
proof (cases rule: record_check_cases [of m success])
  case success_online
  then show ?thesis
    using assms
    by (simp add: record_check_success_online probed_def outage_start_iff_offline_def)
next
  case (success_offline st)
  then show ?thesis
    by (simp add: record_check_success_offline probed_def outage_start_iff_offline_def)
next
  case failure_stays
  then show ?thesis
    using assms
    by (simp add: record_check_failure_stays probed_def outage_start_iff_offline_def)
next
  case failure_offline
  then show ?thesis
    by (simp add: record_check_failure_offline probed_def outage_start_iff_offline_def)
qed

lemma probed_append: "probed (xs @ ys) = probed xs @ probed ys"
  by (simp add: probed_def)

lemma ping_loop_probes:
  "outage_start_iff_offline m \<Longrightarrow>
   \<exists>m' rows. ping_loop env ts m rs =
       Inr (m', rs @ map (\<lambda>t. fst (ping_host env t))
                      (upto_first_success (\<lambda>t. fst (ping_host env t)) ts)) \<and>
     outage_start_iff_offline m' \<and> event_log m' = event_log m @ rows \<and>
     probed rows =
       map (Pair ''ICMP_PING'') (upto_first_success (\<lambda>t. fst (ping_host env t)) ts)"
proof (induction ts arbitrary: m rs)
  case Nil
  then show ?case by (simp add: upto_first_success_Nil probed_def)
next
  case (Cons t ts)
  obtain success rt where p: "ping_host env t = (success, rt)" by (cases "ping_host env t")
  from record_check_probed [OF Cons.prems] obtain m1 rows1 where
    m1: "record_check m success t rt ''ICMP_PING'' [] (clock env t) = Inr m1"
      "outage_start_iff_offline m1" "event_log m1 = event_log m @ rows1"
      "probed rows1 = [(''ICMP_PING'', t)]"
    by blast
  show ?case
  proof (cases success)
    case True
    with p m1 show ?thesis
      by (auto simp: and_then_def upto_first_success_Cons)
  next
    case False
    from Cons.IH [OF m1(2), of "rs @ [success]"] obtain m' rows where
      m': "ping_loop env ts m1 (rs @ [success]) =
          Inr (m', (rs @ [success]) @ map (\<lambda>t. fst (ping_host env t))
                      (upto_first_success (\<lambda>t. fst (ping_host env t)) ts))"
        "outage_start_iff_offline m'" "event_log m' = event_log m1 @ rows"
        "probed rows =
           map (Pair ''ICMP_PING'') (upto_first_success (\<lambda>t. fst (ping_host env t)) ts)"
      by blast
    have "event_log m' = event_log m @ (rows1 @ rows)" using m'(3) m1(3) by simp
    moreover have "probed (rows1 @ rows) =
       map (Pair ''ICMP_PING'') (upto_first_success (\<lambda>t. fst (ping_host env t)) (t # ts))"
      using m1(4) m'(4) p False by (simp add: probed_append upto_first_success_Cons)
    moreover have "ping_loop env (t # ts) m rs =
       Inr (m', rs @ map (\<lambda>t. fst (ping_host env t))
                      (upto_first_success (\<lambda>t. fst (ping_host env t)) (t # ts)))"
      using p m1(1) m'(1) False by (simp add: and_then_def upto_first_success_Cons)
    ultimately show ?thesis using m'(2) by blast
  qed
qed

lemma dns_loop_probes:
  "outage_start_iff_offline m \<Longrightarrow>
   \<exists>m' rows. dns_loop env ts m rs =
       Inr (m', rs @ map (test_dns_resolution env)
                      (upto_first_success (test_dns_resolution env) ts)) \<and>
     outage_start_iff_offline m' \<and> event_log m' = event_log m @ rows \<and>
     probed rows =
       map (Pair ''DNS_RESOLUTION'') (upto_first_success (test_dns_resolution env) ts)"
proof (induction ts arbitrary: m rs)
  case Nil
  then show ?case by (simp add: upto_first_success_Nil probed_def)
next
  case (Cons t ts)
  define success where "success = test_dns_resolution env t"
  from record_check_probed [OF Cons.prems] obtain m1 rows1 where
    m1: "record_check m success t None ''DNS_RESOLUTION'' [] (clock env t) = Inr m1"
      "outage_start_iff_offline m1" "event_log m1 = event_log m @ rows1"
      "probed rows1 = [(''DNS_RESOLUTION'', t)]"
    by blast
  show ?case
  proof (cases success)
    case True
    with m1 show ?thesis
      by (auto simp: and_then_def upto_first_success_Cons success_def Let_def)
  next
    case False
    from Cons.IH [OF m1(2), of "rs @ [success]"] obtain m' rows where
      m': "dns_loop env ts m1 (rs @ [success]) =
          Inr (m', (rs @ [success]) @ map (test_dns_resolution env)
                      (upto_first_success (test_dns_resolution env) ts))"
        "outage_start_iff_offline m'" "event_log m' = event_log m1 @ rows"
        "probed rows =
           map (Pair ''DNS_RESOLUTION'') (upto_first_success (test_dns_resolution env) ts)"
      by blast
    have "event_log m' = event_log m @ (rows1 @ rows)" using m'(3) m1(3) by simp
    moreover have "probed (rows1 @ rows) =
       map (Pair ''DNS_RESOLUTION'') (upto_first_success (test_dns_resolution env) (t # ts))"
      using m1(4) m'(4) False
      by (simp add: probed_append upto_first_success_Cons success_def)
    moreover have "dns_loop env (t # ts) m rs =
       Inr (m', rs @ map (test_dns_resolution env)
                      (upto_first_success (test_dns_resolution env) (t # ts)))"
      using m1(1) m'(1) False
      by (simp add: and_then_def upto_first_success_Cons success_def Let_def)
    ultimately show ?thesis using m'(2) by blast
  qed
qed

text \<open>
  Claim C7. From every state the monitor reaches, a round of \<open>perform_connectivity_test\<close>
  returns, and the checks it records are: the ping targets in their configured order, up
  to and including the first that succeeds (all of them when none does); after them, and
  only when every ping target failed, the first two DNS domains in their order, again up
  to and including the first that succeeds. The round reports success exactly when one
  of these probes succeeded.
\<close>

theorem probe_order_of_a_round:
  assumes "run (NetworkMonitor_init t0) cs = Inr m"
  shows "\<exists>m' b. perform_connectivity_test env m = Inr (m', b) \<and>
     probed (rows_since m m') =
       map (Pair ''ICMP_PING'')
         (upto_first_success (\<lambda>t. fst (ping_host env t)) PING_TARGETS) @
       (if list_ex (\<lambda>t. fst (ping_host env t)) PING_TARGETS then []
        else map (Pair ''DNS_RESOLUTION'')
               (upto_first_success (test_dns_resolution env) (take 2 DNS_TEST_DOMAINS))) \<and>
     b = (list_ex (\<lambda>t. fst (ping_host env t)) PING_TARGETS \<or>
          list_ex (test_dns_resolution env) (take 2 DNS_TEST_DOMAINS))"
proof -
  from run_returns [OF init_ok, of t0 cs] assms have inv: "outage_start_iff_offline m"
    by simp
  let ?ok = "\<lambda>t. fst (ping_host env t)"
  from ping_loop_probes [OF inv, of env PING_TARGETS "[]"] obtain m1 rows1 where
    m1: "ping_loop env PING_TARGETS m [] =
           Inr (m1, map ?ok (upto_first_success ?ok PING_TARGETS))"
      "outage_start_iff_offline m1" "event_log m1 = event_log m @ rows1"
      "probed rows1 = map (Pair ''ICMP_PING'') (upto_first_success ?ok PING_TARGETS)"
    by auto
  have any1: "py_any (map ?ok (upto_first_success ?ok PING_TARGETS)) =
      list_ex ?ok PING_TARGETS"
    using py_any_upto [of "[]" ?ok PING_TARGETS] by (simp add: py_any_def)
  show ?thesis
  proof (cases "list_ex ?ok PING_TARGETS")
    case True
    with m1 any1 show ?thesis
      by (auto simp: perform_connectivity_test_def and_then_def rows_since_def)
  next
    case False
    let ?rs = "map ?ok (upto_first_success ?ok PING_TARGETS)"
    let ?ds = "take 2 DNS_TEST_DOMAINS"
    from dns_loop_probes [OF m1(2), of env ?ds ?rs] obtain m2 rows2 where
      m2: "dns_loop env ?ds m1 ?rs =
            Inr (m2, ?rs @ map (test_dns_resolution env)
                   (upto_first_success (test_dns_resolution env) ?ds))"
        "event_log m2 = event_log m1 @ rows2"
        "probed rows2 = map (Pair ''DNS_RESOLUTION'')
           (upto_first_success (test_dns_resolution env) ?ds)"
      by blast
    have any2: "py_any (?rs @ map (test_dns_resolution env)
                   (upto_first_success (test_dns_resolution env) ?ds)) =
        list_ex (test_dns_resolution env) ?ds"
      using py_any_upto [of ?rs "test_dns_resolution env" ?ds] any1 False by simp
    have "perform_connectivity_test env m =
        Inr (m2, list_ex (test_dns_resolution env) ?ds)"
      using m1(1) m2(1) any1 any2 False
      by (simp add: perform_connectivity_test_def and_then_def)
    moreover have "probed (rows_since m m2) = probed rows1 @ probed rows2"
      using m1(3) m2(2) by (simp add: rows_since_def probed_append)
    ultimately show ?thesis using m1(4) m2(3) False by simp
  qed
qed

theorem probe_order_of_a_round_witness:
  "run (NetworkMonitor_init 0) [] = Inr (NetworkMonitor_init 0) \<and>
   (\<exists>m' b. perform_connectivity_test pings_fail_dns_answers (NetworkMonitor_init 0) =
       Inr (m', b) \<and>
     probed (rows_since (NetworkMonitor_init 0) m') =
       [(''ICMP_PING'', ''8.8.8.8''), (''ICMP_PING'', ''1.1.1.1''),
        (''ICMP_PING'', ''208.67.222.222''), (''DNS_RESOLUTION'', ''google.com'')] \<and>
     b)"
proof -
  have r: "run (NetworkMonitor_init 0) [] = Inr (NetworkMonitor_init 0)" by simp
  have u: "upto_first_success (\<lambda>t. fst (ping_host pings_fail_dns_answers t)) PING_TARGETS =
      PING_TARGETS"
    "list_ex (\<lambda>t. fst (ping_host pings_fail_dns_answers t)) PING_TARGETS = False"
    "upto_first_success (test_dns_resolution pings_fail_dns_answers)
       (take 2 DNS_TEST_DOMAINS) = [''google.com'']"
    "list_ex (test_dns_resolution pings_fail_dns_answers) (take 2 DNS_TEST_DOMAINS) = True"
    by (simp_all add: upto_first_success_def PING_TARGETS_def DNS_TEST_DOMAINS_def
        pings_fail_dns_answers_def)
  from probe_order_of_a_round [OF r, of pings_fail_dns_answers] show ?thesis
    unfolding u by (simp add: PING_TARGETS_def)
qed

text \<open>
  Claim C4. \<open>perform_connectivity_test\<close> records one check per target. So when the
  monitor is online with no failure counted and all three ping targets fail, the loop
  over the ping targets alone leaves the monitor offline: the third failure reaches the
  threshold and logs \<open>OUTAGE_START\<close>, with the clock reading of that check as the start
  of the outage, before any DNS lookup is recorded. If the first DNS lookup of the same
  round then succeeds, the round logs \<open>OUTAGE_END\<close> at once, ends online, and has
  appended one entry to the outage list, from the third failed ping to that lookup.
\<close>

theorem one_round_opens_and_closes_outage:
  assumes "is_online m" and "consecutive_failures m = 0"
    and "list_all (\<lambda>t. \<not> fst (ping_host env t)) PING_TARGETS"
  shows "\<exists>m1. ping_loop env PING_TARGETS m [] = Inr (m1, [False, False, False]) \<and>
     \<not> is_online m1 \<and>
     current_outage_start m1 = Some (clock env ''208.67.222.222'') \<and>
     outages m1 = outages m \<and>
     events_since m m1 = [''FAILURE'', ''FAILURE'', ''FAILURE'', ''OUTAGE_START''] \<and>
     (test_dns_resolution env ''google.com'' \<longrightarrow>
       (\<exists>m'. perform_connectivity_test env m = Inr (m', True) \<and>
          is_online m' \<and>
          outages m' = outages m @
            [\<lparr>start = clock env ''208.67.222.222'', outage_end = clock env ''google.com'',
              duration = clock env ''google.com'' - clock env ''208.67.222.222'',
              ongoing = False\<rparr>] \<and>
          events_since m m' =
            [''FAILURE'', ''FAILURE'', ''FAILURE'', ''OUTAGE_START'', ''OUTAGE_END'',
             ''SUCCESS'']))"
proof -
  from assms(3) obtain rt1 rt2 rt3 where p:
    "ping_host env ''8.8.8.8'' = (False, rt1)" "ping_host env ''1.1.1.1'' = (False, rt2)"
    "ping_host env ''208.67.222.222'' = (False, rt3)"
    by (cases "ping_host env ''8.8.8.8''"; cases "ping_host env ''1.1.1.1''";
        cases "ping_host env ''208.67.222.222''") (auto simp: PING_TARGETS_def)
  define m1 where "m1 = m\<lparr>total_checks := total_checks m + 1,
           failed_checks := failed_checks m + 1,
           consecutive_failures := consecutive_failures m + 1,
           event_log := event_log m @
             [\<lparr>event_type = ''FAILURE'', target = ''8.8.8.8'', response_time = None,
               test_type = ''ICMP_PING'', message = ''Connection failed''\<rparr>]\<rparr>"
  define m2 where "m2 = m1\<lparr>total_checks := total_checks m1 + 1,
           failed_checks := failed_checks m1 + 1,
           consecutive_failures := consecutive_failures m1 + 1,
           event_log := event_log m1 @
             [\<lparr>event_type = ''FAILURE'', target = ''1.1.1.1'', response_time = None,
               test_type = ''ICMP_PING'', message = ''Connection failed''\<rparr>]\<rparr>"
  define m3 where "m3 = m2\<lparr>total_checks := total_checks m2 + 1,
           failed_checks := failed_checks m2 + 1,
           consecutive_failures := consecutive_failures m2 + 1,
           is_online := False,
           current_outage_start := Some (clock env ''208.67.222.222''),
           event_log := event_log m2 @
             [\<lparr>event_type = ''FAILURE'', target = ''208.67.222.222'', response_time = None,
               test_type = ''ICMP_PING'', message = ''Connection failed''\<rparr>,
              \<lparr>event_type = ''OUTAGE_START'', target = [], response_time = None,
               test_type = [],
               message = ''Network outage detected after 3 consecutive failures''\<rparr>]\<rparr>"
  have s1: "record_check m False ''8.8.8.8'' rt1 ''ICMP_PING'' [] (clock env ''8.8.8.8'') =
      Inr m1"
    using assms(1,2)
    by (simp add: record_check_failure_stays m1_def FAILURE_THRESHOLD_def details_or_def)
  have i1: "is_online m1" "consecutive_failures m1 = 1"
    using assms(1,2) by (simp_all add: m1_def)
  have s2: "record_check m1 False ''1.1.1.1'' rt2 ''ICMP_PING'' [] (clock env ''1.1.1.1'') =
      Inr m2"
    using i1
    by (simp add: record_check_failure_stays m2_def FAILURE_THRESHOLD_def details_or_def)
  have i2: "is_online m2" "consecutive_failures m2 = 2" using i1 by (simp_all add: m2_def)
  have s3: "record_check m2 False ''208.67.222.222'' rt3 ''ICMP_PING'' []
      (clock env ''208.67.222.222'') = Inr m3"
    using i2
    by (simp add: record_check_failure_offline m3_def FAILURE_THRESHOLD_def details_or_def)
  have loop: "ping_loop env PING_TARGETS m [] = Inr (m3, [False, False, False])"
    using p s1 s2 s3 by (simp add: PING_TARGETS_def and_then_def)
  have f3: "\<not> is_online m3" "current_outage_start m3 = Some (clock env ''208.67.222.222'')"
    "outages m3 = outages m"
    "events_since m m3 = [''FAILURE'', ''FAILURE'', ''FAILURE'', ''OUTAGE_START'']"
    by (simp_all add: m3_def m2_def m1_def events_since_def rows_since_def)
  have round: "\<exists>m'. perform_connectivity_test env m = Inr (m', True) \<and>
          is_online m' \<and>
          outages m' = outages m @
            [\<lparr>start = clock env ''208.67.222.222'', outage_end = clock env ''google.com'',
              duration = clock env ''google.com'' - clock env ''208.67.222.222'',
              ongoing = False\<rparr>] \<and>
          events_since m m' =
            [''FAILURE'', ''FAILURE'', ''FAILURE'', ''OUTAGE_START'', ''OUTAGE_END'',
             ''SUCCESS'']"
    if dns: "test_dns_resolution env ''google.com''"
  proof -
    have s4: "record_check m3 True ''google.com'' None ''DNS_RESOLUTION'' []
        (clock env ''google.com'') =
      Inr (m3\<lparr>total_checks := total_checks m3 + 1,
           successful_checks := successful_checks m3 + 1,
           consecutive_failures := 0,
           response_times := response_times m3 @ [],
           is_online := True,
           outages := outages m3 @
             [\<lparr>start = clock env ''208.67.222.222'', outage_end = clock env ''google.com'',
               duration = clock env ''google.com'' - clock env ''208.67.222.222'',
               ongoing = False\<rparr>],
           current_outage_start := None,
           event_log := event_log m3 @
             [\<lparr>event_type = ''OUTAGE_END'', target = [], response_time = None,
               test_type = [],
               message = ''Network restored. Outage duration: '' @
                 format_duration (clock env ''google.com'' - clock env ''208.67.222.222'')\<rparr>,
              \<lparr>event_type = ''SUCCESS'', target = ''google.com'',
               response_time = response_time_or_empty None, test_type = ''DNS_RESOLUTION'',
               message = details_or [] ''Connection successful''\<rparr>]\<rparr>)"
      using record_check_success_offline [OF f3(1,2), of "''google.com''" None
          "''DNS_RESOLUTION''" "[]" "clock env ''google.com''"]
      by simp
    show ?thesis
      using loop dns s4
      by (simp add: perform_connectivity_test_def and_then_def py_any_def
          DNS_TEST_DOMAINS_def Let_def events_since_def rows_since_def m3_def m2_def m1_def)
  qed
  from loop f3 round show ?thesis by blast
qed

theorem one_round_opens_and_closes_outage_witness:
  "is_online (NetworkMonitor_init 0) \<and> consecutive_failures (NetworkMonitor_init 0) = 0 \<and>
   list_all (\<lambda>t. \<not> fst (ping_host pings_fail_dns_answers t)) PING_TARGETS \<and>
   test_dns_resolution pings_fail_dns_answers ''google.com'' \<and>
   (\<exists>m1. ping_loop pings_fail_dns_answers PING_TARGETS (NetworkMonitor_init 0) [] =
       Inr (m1, [False, False, False]) \<and>
     \<not> is_online m1 \<and> current_outage_start m1 = Some 6000000) \<and>
   (\<exists>m'. perform_connectivity_test pings_fail_dns_answers (NetworkMonitor_init 0) =
       Inr (m', True) \<and>
     is_online m' \<and>
     outages m' =
       [\<lparr>start = 6000000, outage_end = 10000000, duration = 4000000, ongoing = False\<rparr>])"
proof -
  have h: "list_all (\<lambda>t. \<not> fst (ping_host pings_fail_dns_answers t)) PING_TARGETS"
    by (simp add: sample_probes PING_TARGETS_def)
  from one_round_opens_and_closes_outage [OF init_fields(1,2) h, of 0]
  show ?thesis using h by (auto simp: init_fields sample_probes)
qed

section \<open>The duration format\<close>

lemma digit_not_unit:
  assumes "d < 10"
  shows "''0123456789'' ! d \<notin> {CHR ''h'', CHR ''m'', CHR ''s'', CHR '' ''}"
proof -
  from assms have "d \<in> {0, 1, 2, 3, 4, 5, 6, 7, 8, 9}" by auto
  then show ?thesis by (auto simp: eval_nat_numeral)
qed

lemma str_nat_digits:
  "set (str_nat n) \<inter> {CHR ''h'', CHR ''m'', CHR ''s'', CHR '' ''} = {}"
proof (induction n rule: str_nat.induct)
  case (1 n)
  show ?case
  proof (cases "n < 10")
    case True
    then show ?thesis
      using digit_not_unit [of n] by (subst str_nat.simps) simp
  next
    case False
    have "n mod 10 < 10" by simp
    from digit_not_unit [OF this] "1.IH" [OF False] show ?thesis
      using False by (subst str_nat.simps) auto
  qed
qed

lemma str_int_digits:
  "set (str_int i) \<inter> {CHR ''h'', CHR ''m'', CHR ''s'', CHR '' ''} = {}"
  using str_nat_digits [of "nat i"] str_nat_digits [of "nat (- i)"]
  by (auto simp: str_int_def)

lemma str_int_0: "str_int 0 = ''0''"
proof -
  have "str_nat 0 = ''0''" by (subst str_nat.simps) simp
  then show ?thesis by (simp add: str_int_def)
qed

lemma no_unit_no_s:
  "set xs \<inter> {CHR ''h'', CHR ''m'', CHR ''s'', CHR '' ''} = {} \<Longrightarrow>
   count_list xs CHR ''s'' = 0"
  by (induction xs) auto

lemma format_duration_parts:
  "format_duration td =
     (if int_total_seconds td div 3600 > 0
      then str_int (int_total_seconds td div 3600) @ ''h '' else []) @
     (if int_total_seconds td mod 3600 div 60 > 0
      then str_int (int_total_seconds td mod 3600 div 60) @ ''m '' else []) @
     str_int (int_total_seconds td mod 60) @ ''s''"
  by (simp add: format_duration_def Let_def)

text \<open>
  Claim C10. The text of a duration is the hours followed by \<open>h\<close> and a space if and only
  if the hours are positive, then the minutes followed by \<open>m\<close> and a space if and only if
  the minutes are positive, then the seconds followed by \<open>s\<close>, always; numerals hold no
  letter, so the text has an \<open>h\<close> exactly when the hours are positive, an \<open>m\<close> exactly
  when the minutes are, and one \<open>s\<close>, its last character; the duration zero reads
  \<open>0s\<close>, 3723 seconds read \<open>1h 2m 3s\<close> and one hour reads \<open>1h 0s\<close>. This holds for
  every duration, the non-negative ones among them.
\<close>

theorem format_duration_shape:
  "format_duration td =
     (if int_total_seconds td div 3600 > 0
      then str_int (int_total_seconds td div 3600) @ ''h '' else []) @
     (if int_total_seconds td mod 3600 div 60 > 0
      then str_int (int_total_seconds td mod 3600 div 60) @ ''m '' else []) @
     str_int (int_total_seconds td mod 60) @ ''s'' \<and>
   (CHR ''h'' \<in> set (format_duration td)) = (int_total_seconds td div 3600 > 0) \<and>
   (CHR ''m'' \<in> set (format_duration td)) = (int_total_seconds td mod 3600 div 60 > 0) \<and>
   last (format_duration td) = CHR ''s'' \<and>
   count_list (format_duration td) CHR ''s'' = 1 \<and>
   format_duration 0 = ''0s'' \<and>
   format_duration 3723000000 = ''1h 2m 3s'' \<and>
   format_duration 3600000000 = ''1h 0s''"
proof -
  note d = str_int_digits [of "int_total_seconds td div 3600"]
    str_int_digits [of "int_total_seconds td mod 3600 div 60"]
    str_int_digits [of "int_total_seconds td mod 60"]
  have h: "(CHR ''h'' \<in> set (format_duration td)) = (int_total_seconds td div 3600 > 0)"
    using d by (auto simp: format_duration_parts)
  have m: "(CHR ''m'' \<in> set (format_duration td)) =
      (int_total_seconds td mod 3600 div 60 > 0)"
    using d by (auto simp: format_duration_parts)
  have l: "last (format_duration td) = CHR ''s''"
    by (simp add: format_duration_parts)
  have c: "count_list (format_duration td) CHR ''s'' = 1"
    using d [THEN no_unit_no_s] by (simp add: format_duration_parts)
  have z: "format_duration 0 = ''0s''"
    by (simp add: format_duration_parts int_total_seconds_def str_int_0)
  have "str_nat 1 = ''1''" by (subst str_nat.simps) simp
  moreover have "str_nat 2 = ''2''" by (subst str_nat.simps) (simp add: eval_nat_numeral)
  ultimately have "str_int 1 = ''1''" "str_int 2 = ''2''"
    by (simp_all add: str_int_def)
  note n = this str_int_3
  have e1: "format_duration 3723000000 = ''1h 2m 3s''"
    by (simp add: format_duration_parts int_total_seconds_def n)
  have e2: "format_duration 3600000000 = ''1h 0s''"
    by (simp add: format_duration_parts int_total_seconds_def n str_int_0)
  from format_duration_parts h m l c z e1 e2 show ?thesis by blast
qed

end
